theory Spec2Isabelle
  imports Main
begin

section \<open>JavaScript values\<close>

text \<open>
  The values the hook handles are opaque to it: JSON trees (the parsed response, the
  variables of a query) and whatever a failing call throws. Numbers are passed
  through untouched, so a JSON number is kept as an integer literal. The keys of an
  object are distinct, as they are in every JavaScript object.
\<close>

datatype json =
    JNull
  | JBool bool
  | JNum int
  | JStr string
  | JArr "json list"
  | JObj "(string \<times> json) list"

datatype jsval =
    Undefined
  | Val json
  | Error string

text \<open>The truthiness test of \<^verbatim>\<open>vars ? vars : props.variables\<close> and \<^verbatim>\<open>if (props.variables)\<close>.\<close>

fun truthy :: "jsval \<Rightarrow> bool" where
  "truthy Undefined = False"
| "truthy (Val JNull) = False"
| "truthy (Val (JBool b)) = b"
| "truthy (Val (JNum n)) = (n \<noteq> 0)"
| "truthy (Val (JStr s)) = (s \<noteq> [])"
| "truthy (Val (JArr xs)) = True"
| "truthy (Val (JObj kvs)) = True"
| "truthy (Error m) = True"

text \<open>A call either throws a value or returns one; awaiting a rejected promise throws.\<close>

datatype 'a completion = Throws jsval | Returns 'a

section \<open>Configuration, props, packet, request and response\<close>

text \<open>
  \<^verbatim>\<open>type GraphQLContextType = { endpoint: RequestInfo; headers: object | undefined }\<close>.
  The headers are a string-keyed mapping; \<open>None\<close> is \<^verbatim>\<open>undefined\<close>.
\<close>

record GraphQLContextType =
  endpoint :: string
  headers :: "(string \<rightharpoonup> string) option"

text \<open>\<^verbatim>\<open>createContext({ endpoint: "", headers: {} })\<close>: the value read with no provider.\<close>

definition GraphQLContext :: GraphQLContextType where
  "GraphQLContext = \<lparr>endpoint = [], headers = Some Map.empty\<rparr>"

text \<open>The argument of \<^verbatim>\<open>useGraphQL\<close>.\<close>

record props =
  query :: string
  variables :: jsval
  loadOnStart :: bool

text \<open>\<^verbatim>\<open>const packet = { query: props.query, variables: params }\<close>.\<close>

datatype packet = Packet (packet_query: string) (packet_variables: jsval)

text \<open>The two arguments of \<^verbatim>\<open>fetch\<close>: the endpoint and the init object.\<close>

record request =
  url :: string
  http_method :: string
  http_headers :: "string \<rightharpoonup> string"
  body :: string

text \<open>
  The response of the transport. The hook reads nothing of it but \<^verbatim>\<open>json()\<close>, which
  throws on a body that is not JSON; the status is there and is never looked at.
\<close>

record response =
  status :: nat
  json :: "json completion"

text \<open>
  What the hook calls and does not define: \<^verbatim>\<open>JSON.stringify\<close> (which throws on
  a cyclic value or a BigInt) and \<^verbatim>\<open>fetch\<close> (whose promise rejects on a transport
  failure).
\<close>

record env =
  JSON_stringify :: "packet \<Rightarrow> string completion"
  fetch :: "request \<Rightarrow> response completion"

section \<open>The hook's state and the calls it makes\<close>

text \<open>The three \<^verbatim>\<open>useState\<close> cells; \<^verbatim>\<open>null\<close> is \<open>Val JNull\<close>.\<close>

record hook_state =
  loading :: bool
  error :: jsval
  data :: jsval

text \<open>\<^verbatim>\<open>useState(false)\<close>, \<^verbatim>\<open>useState(null)\<close>, \<^verbatim>\<open>useState(null)\<close>.\<close>

definition initial_state :: hook_state where
  "initial_state = \<lparr>loading = False, error = Val JNull, data = Val JNull\<rparr>"

text \<open>
  Every call that leaves the function is an event: the three state setters, the
  serialisation of the packet, the network call, the timer and the reading of the
  response body. A run of the function is the list of its events, in order.
\<close>

datatype event =
    SetLoading bool
  | SetError jsval
  | SetData jsval
  | Stringify packet
  | Fetch request
  | SetTimeout nat
  | ReadJson response

fun apply_event :: "hook_state \<Rightarrow> event \<Rightarrow> hook_state" where
  "apply_event s (SetLoading b) = s\<lparr>loading := b\<rparr>"
| "apply_event s (SetError e) = s\<lparr>error := e\<rparr>"
| "apply_event s (SetData d) = s\<lparr>data := d\<rparr>"
| "apply_event s (Stringify p) = s"
| "apply_event s (Fetch r) = s"
| "apply_event s (SetTimeout n) = s"
| "apply_event s (ReadJson r) = s"

definition run :: "event list \<Rightarrow> hook_state \<Rightarrow> hook_state" where
  "run evs s = foldl apply_event s evs"

text \<open>A computation: the events it made and how it completed.\<close>

type_synonym 'a io = "event list \<times> 'a completion"

definition trace :: "'a io \<Rightarrow> event list" where
  "trace m = fst m"

definition outcome :: "'a io \<Rightarrow> 'a completion" where
  "outcome m = snd m"

text \<open>Sequencing stops at the first throw, as statements in a block do.\<close>

definition and_then :: "'a io \<Rightarrow> ('a \<Rightarrow> 'b io) \<Rightarrow> 'b io" where
  "and_then m f =
     (case snd m of
        Throws e \<Rightarrow> (fst m, Throws e)
      | Returns x \<Rightarrow> (fst m @ fst (f x), snd (f x)))"

text \<open>\<^verbatim>\<open>try { m } catch (error) { h error }\<close>.\<close>

definition try_catch :: "'a io \<Rightarrow> (jsval \<Rightarrow> 'a io) \<Rightarrow> 'a io" where
  "try_catch m h =
     (case snd m of
        Throws e \<Rightarrow> (fst m @ fst (h e), snd (h e))
      | Returns x \<Rightarrow> (fst m, Returns x))"

definition setLoading :: "bool \<Rightarrow> unit io" where
  "setLoading b = ([SetLoading b], Returns ())"

definition setError :: "jsval \<Rightarrow> unit io" where
  "setError e = ([SetError e], Returns ())"

definition setData :: "jsval \<Rightarrow> unit io" where
  "setData d = ([SetData d], Returns ())"

definition stringify_call :: "env \<Rightarrow> packet \<Rightarrow> string io" where
  "stringify_call en p = ([Stringify p], JSON_stringify en p)"

text \<open>\<^verbatim>\<open>await fetch(endpoint, init)\<close>.\<close>

definition await_fetch :: "env \<Rightarrow> request \<Rightarrow> response io" where
  "await_fetch en r = ([Fetch r], fetch en r)"

text \<open>\<^verbatim>\<open>await new Promise((res) => setTimeout(() => { res(0); }, n))\<close>.\<close>

definition await_timeout :: "nat \<Rightarrow> unit io" where
  "await_timeout n = ([SetTimeout n], Returns ())"

text \<open>\<^verbatim>\<open>await req.json()\<close>.\<close>

definition await_json :: "response \<Rightarrow> json io" where
  "await_json r = ([ReadJson r], json r)"

text \<open>
  \<^verbatim>\<open>rs.data\<close>: a TypeError on \<^verbatim>\<open>null\<close>, the property of an object when it has
  one, and \<^verbatim>\<open>undefined\<close> otherwise (a missing property, a primitive, an array).
\<close>

fun get_data :: "json \<Rightarrow> jsval io" where
  "get_data JNull = ([], Throws (Error ''TypeError''))"
| "get_data (JObj kvs) =
     ([], Returns (case map_of kvs ''data'' of None \<Rightarrow> Undefined | Some v \<Rightarrow> Val v))"
| "get_data (JBool b) = ([], Returns Undefined)"
| "get_data (JNum n) = ([], Returns Undefined)"
| "get_data (JStr s) = ([], Returns Undefined)"
| "get_data (JArr xs) = ([], Returns Undefined)"

text \<open>\<^verbatim>\<open>{ "Content-Type": "application/json", ...headers }\<close>: spreading \<^verbatim>\<open>undefined\<close> adds nothing.\<close>

definition merge_headers :: "(string \<rightharpoonup> string) option \<Rightarrow> (string \<rightharpoonup> string)" where
  "merge_headers hs =
     [''Content-Type'' \<mapsto> ''application/json''] ++ (case hs of None \<Rightarrow> Map.empty | Some h \<Rightarrow> h)"

text \<open>
  \<^verbatim>\<open>const params = vars ? vars : props.variables; const packet = { query: props.query, variables: params }\<close>.
\<close>

definition make_packet :: "props \<Rightarrow> jsval \<Rightarrow> packet" where
  "make_packet pr vars =
     (let params = (if truthy vars then vars else variables pr)
      in Packet (query pr) params)"

text \<open>The arguments of \<^verbatim>\<open>fetch\<close>, given the serialised packet.\<close>

definition make_request :: "GraphQLContextType \<Rightarrow> string \<Rightarrow> request" where
  "make_request ctx b =
     \<lparr>url = endpoint ctx, http_method = ''post'',
      http_headers = merge_headers (headers ctx), body = b\<rparr>"

section \<open>useGraphQL, TypeScript source (src/index.tsx)\<close>

text \<open>\<^verbatim>\<open>reset\<close>: the three setters, in the order of the source.\<close>

definition reset :: "unit io" where
  "reset = and_then (setLoading False) (\<lambda>_. and_then (setError (Val JNull)) (\<lambda>_. setData (Val JNull)))"

text \<open>The block under \<^verbatim>\<open>try\<close> in \<^verbatim>\<open>loadData\<close>.\<close>

definition request_path_ts :: "env \<Rightarrow> GraphQLContextType \<Rightarrow> props \<Rightarrow> jsval \<Rightarrow> unit io" where
  "request_path_ts en ctx pr vars =
     (let packet = make_packet pr vars
      in and_then (setLoading True) (\<lambda>_.
         and_then (stringify_call en packet) (\<lambda>b.
         and_then (await_fetch en (make_request ctx b)) (\<lambda>req.
         and_then (await_timeout 3000) (\<lambda>_.
         and_then (await_json req) (\<lambda>rs.
         and_then (get_data rs) (\<lambda>d.
         and_then (setData d) (\<lambda>_.
         setLoading False))))))))"

definition loadData_ts :: "env \<Rightarrow> GraphQLContextType \<Rightarrow> props \<Rightarrow> jsval \<Rightarrow> unit io" where
  "loadData_ts en ctx pr vars =
     try_catch (request_path_ts en ctx pr vars) (\<lambda>error. setError error)"

section \<open>useGraphQL, shipped build (lib/index.js)\<close>

definition request_path_js :: "env \<Rightarrow> GraphQLContextType \<Rightarrow> props \<Rightarrow> jsval \<Rightarrow> unit io" where
  "request_path_js en ctx pr vars =
     (let packet = make_packet pr vars
      in and_then (setLoading True) (\<lambda>_.
         and_then (stringify_call en packet) (\<lambda>b.
         and_then (await_fetch en (make_request ctx b)) (\<lambda>req.
         and_then (await_json req) (\<lambda>rs.
         and_then (get_data rs) (\<lambda>d.
         and_then (setData d) (\<lambda>_.
         setLoading False)))))))"

definition loadData_js :: "env \<Rightarrow> GraphQLContextType \<Rightarrow> props \<Rightarrow> jsval \<Rightarrow> unit io" where
  "loadData_js en ctx pr vars =
     try_catch (request_path_js en ctx pr vars) (\<lambda>error. setError error)"

section \<open>Activation: the effect of the hook\<close>

text \<open>
  What an effect or its cleanup calls: \<^verbatim>\<open>loadData()\<close> of the render whose props the
  closure holds, with the argument it is given, or \<^verbatim>\<open>reset()\<close>.
\<close>

datatype call = CallLoadData props jsval | CallReset

text \<open>
  src/index.tsx:
  \<^verbatim>\<open>useEffect(() => { if (props.loadOnStart) { loadData(); } return () => reset(); }, [props.loadOnStart])\<close>.
  The effect runs when the instance mounts and after a render whose \<^verbatim>\<open>loadOnStart\<close>
  differs from the one before, the cleanup of the previous run first; the cleanup
  of the last run is called when the instance unmounts.
\<close>

definition effect_ts :: "props \<Rightarrow> call list" where
  "effect_ts pr = (if loadOnStart pr then [CallLoadData pr Undefined] else [])"

definition cleanup :: "call list" where
  "cleanup = [CallReset]"

fun rerender_ts :: "props \<Rightarrow> props list \<Rightarrow> call list" where
  "rerender_ts prev [] = []"
| "rerender_ts prev (pr # prs) =
     (if loadOnStart pr = loadOnStart prev then [] else cleanup @ effect_ts pr)
     @ rerender_ts pr prs"

text \<open>A life of the instance: the mount, the renders that follow, the unmount.\<close>

definition lifetime_ts :: "props \<Rightarrow> props list \<Rightarrow> call list" where
  "lifetime_ts pr prs = effect_ts pr @ rerender_ts pr prs @ cleanup"

text \<open>
  lib/index.js:
  \<^verbatim>\<open>useEffect(() => { if (props.variables) { loadData(); } return () => reset(); }, [])\<close>.
  With no dependency the effect runs at the mount only.
\<close>

definition effect_js :: "props \<Rightarrow> call list" where
  "effect_js pr = (if truthy (variables pr) then [CallLoadData pr Undefined] else [])"

fun rerender_js :: "props \<Rightarrow> props list \<Rightarrow> call list" where
  "rerender_js prev [] = []"
| "rerender_js prev (pr # prs) = rerender_js pr prs"

definition lifetime_js :: "props \<Rightarrow> props list \<Rightarrow> call list" where
  "lifetime_js pr prs = effect_js pr @ rerender_js pr prs @ cleanup"

text \<open>The automatic calls of \<^verbatim>\<open>loadData\<close> among the calls of a life, and the resets.\<close>

fun is_load :: "call \<Rightarrow> bool" where
  "is_load (CallLoadData pr vars) = True"
| "is_load CallReset = False"

definition auto_loads :: "call list \<Rightarrow> call list" where
  "auto_loads cs = filter is_load cs"

definition resets :: "call list \<Rightarrow> nat" where
  "resets cs = length (filter (\<lambda>c. \<not> is_load c) cs)"

section \<open>The value returned to the consumer\<close>

datatype member = LoadDataFn | ResetFn | Flag bool | Value jsval

datatype returned = Leaf member | Array "returned list" | Object "(string \<times> returned) list"

text \<open>src/index.tsx: \<^verbatim>\<open>return [loadData, { data, loading, reset, error }]\<close>.\<close>

definition useGraphQL_ts :: "hook_state \<Rightarrow> returned" where
  "useGraphQL_ts s =
     Array [Leaf LoadDataFn,
            Object [(''data'', Leaf (Value (data s))), (''loading'', Leaf (Flag (loading s))),
                    (''reset'', Leaf ResetFn), (''error'', Leaf (Value (error s)))]]"

text \<open>lib/index.js: \<^verbatim>\<open>return { loadData, data, reset, error, loading }\<close>.\<close>

definition useGraphQL_js :: "hook_state \<Rightarrow> returned" where
  "useGraphQL_js s =
     Object [(''loadData'', Leaf LoadDataFn), (''data'', Leaf (Value (data s))),
             (''reset'', Leaf ResetFn), (''error'', Leaf (Value (error s))),
             (''loading'', Leaf (Flag (loading s)))]"

section \<open>Reading a run\<close>

text \<open>The requests sent and the packets built in a run, in order.\<close>

definition requests :: "event list \<Rightarrow> request list" where
  "requests evs = [r. Fetch r \<leftarrow> evs]"

definition packets :: "event list \<Rightarrow> packet list" where
  "packets evs = [p. Stringify p \<leftarrow> evs]"

fun is_fetch :: "event \<Rightarrow> bool" where
  "is_fetch (Fetch r) = True"
| "is_fetch (SetLoading b) = False"
| "is_fetch (SetError e) = False"
| "is_fetch (SetData d) = False"
| "is_fetch (Stringify p) = False"
| "is_fetch (SetTimeout n) = False"
| "is_fetch (ReadJson r) = False"

text \<open>The part of a run before the network call.\<close>

definition before_fetch :: "event list \<Rightarrow> event list" where
  "before_fetch evs = takeWhile (\<lambda>e. \<not> is_fetch e) evs"

text \<open>
  A clock for a run. The network call and the reading of the body take what the
  transport takes; a timer of \<open>n\<close> milliseconds fires \<open>n\<close> milliseconds after it is
  set or later; the other calls return at once. Each event is stamped with the
  time at which it completes.
\<close>

record timing =
  fetch_latency :: nat
  timer_lateness :: nat
  json_latency :: nat

fun duration :: "timing \<Rightarrow> event \<Rightarrow> nat" where
  "duration tm (Fetch r) = fetch_latency tm"
| "duration tm (SetTimeout n) = n + timer_lateness tm"
| "duration tm (ReadJson r) = json_latency tm"
| "duration tm (SetLoading b) = 0"
| "duration tm (SetError e) = 0"
| "duration tm (SetData d) = 0"
| "duration tm (Stringify p) = 0"

fun timeline :: "timing \<Rightarrow> nat \<Rightarrow> event list \<Rightarrow> (nat \<times> event) list" where
  "timeline tm t [] = []"
| "timeline tm t (e # evs) = (t + duration tm e, e) # timeline tm (t + duration tm e) evs"

section \<open>A hook instance\<close>

text \<open>
  An instance holds the props its component passes and the three state cells. A
  call of \<^verbatim>\<open>loadData\<close> on it runs the function on the props of the instance and
  applies its state setters to the cells; the function assigns to nothing else.
  The result is the instance after the call and the events of the call.
\<close>

record hook =
  stored :: props
  cells :: hook_state

definition trigger_ts :: "env \<Rightarrow> GraphQLContextType \<Rightarrow> hook \<Rightarrow> jsval \<Rightarrow> hook \<times> event list" where
  "trigger_ts en ctx h vars =
     (let evs = trace (loadData_ts en ctx (stored h) vars)
      in (h\<lparr>cells := run evs (cells h)\<rparr>, evs))"

definition trigger_js :: "env \<Rightarrow> GraphQLContextType \<Rightarrow> hook \<Rightarrow> jsval \<Rightarrow> hook \<times> event list" where
  "trigger_js en ctx h vars =
     (let evs = trace (loadData_js en ctx (stored h) vars)
      in (h\<lparr>cells := run evs (cells h)\<rparr>, evs))"

section \<open>Test doubles\<close>

text \<open>
  A transport stub answers every request the same way; the serialiser of the stubs
  returns a fixed text, which the hook passes on without reading it.
\<close>

definition stub_env :: "response completion \<Rightarrow> env" where
  "stub_env answer = \<lparr>JSON_stringify = (\<lambda>p. Returns ''packet''), fetch = (\<lambda>r. answer)\<rparr>"

text \<open>The stub that returns \<^verbatim>\<open>{"data":{"ping":"pong"}}\<close>.\<close>

definition pong :: response where
  "pong = \<lparr>status = 200, json = Returns (JObj [(''data'', JObj [(''ping'', JStr ''pong'')])])\<rparr>"

text \<open>A response whose body is the JSON text \<^verbatim>\<open>null\<close>.\<close>

definition null_body :: response where
  "null_body = \<lparr>status = 200, json = Returns JNull\<rparr>"

text \<open>\<^verbatim>\<open>useGraphQL({ query: "{ping}", variables: {}, loadOnStart: true })\<close>.\<close>

definition ping_props :: props where
  "ping_props = \<lparr>query = ''{ping}'', variables = Val (JObj []), loadOnStart = True\<rparr>"

text \<open>\<^verbatim>\<open>useGraphQL({ query: "{item}", variables: { id: 1 }, loadOnStart: false })\<close>.\<close>

definition item_props :: props where
  "item_props = \<lparr>query = ''{item}'', variables = Val (JObj [(''id'', JNum 1)]), loadOnStart = False\<rparr>"

text \<open>A provider with \<^verbatim>\<open>headers={{ "Authorization": "X" }}\<close>.\<close>

definition auth_ctx :: GraphQLContextType where
  "auth_ctx = \<lparr>endpoint = ''/graphql'', headers = Some [''Authorization'' \<mapsto> ''X'']\<rparr>"

text \<open>A provider whose headers carry a \<^verbatim>\<open>Content-Type\<close> of their own.\<close>

definition plain_ctx :: GraphQLContextType where
  "plain_ctx = \<lparr>endpoint = ''/graphql'',
                headers = Some [''Content-Type'' \<mapsto> ''text/plain'', ''Authorization'' \<mapsto> ''X'']\<rparr>"

text \<open>
  A serialiser for the stubs that tells packets apart: the JSON text of the packet,
  for strings that need no escape. A property whose value is \<^verbatim>\<open>undefined\<close> is
  left out, as \<^verbatim>\<open>JSON.stringify\<close> does.
\<close>

definition digit :: "nat \<Rightarrow> char" where
  "digit n = ''0123456789'' ! n"

fun show_nat :: "nat \<Rightarrow> string" where
  "show_nat n = (if n < 10 then [digit n] else show_nat (n div 10) @ [digit (n mod 10)])"

definition show_int :: "int \<Rightarrow> string" where
  "show_int i = (if i < 0 then ''-'' @ show_nat (nat (- i)) else show_nat (nat i))"

definition quoted :: "string \<Rightarrow> string" where
  "quoted s = [CHR 0x22] @ s @ [CHR 0x22]"

fun commas :: "string list \<Rightarrow> string" where
  "commas [] = []"
| "commas [x] = x"
| "commas (x # y # ys) = x @ '','' @ commas (y # ys)"

fun show_json :: "json \<Rightarrow> string" where
  "show_json JNull = ''null''"
| "show_json (JBool b) = (if b then ''true'' else ''false'')"
| "show_json (JNum n) = show_int n"
| "show_json (JStr s) = quoted s"
| "show_json (JArr xs) = ''['' @ commas (map show_json xs) @ '']''"
| "show_json (JObj kvs) =
     ''{'' @ commas (map (\<lambda>kv. quoted (fst kv) @ '':'' @ show_json (snd kv)) kvs) @ ''}''"

fun show_packet :: "packet \<Rightarrow> string" where
  "show_packet (Packet q Undefined) = ''{'' @ quoted ''query'' @ '':'' @ quoted q @ ''}''"
| "show_packet (Packet q (Val j)) =
     ''{'' @ quoted ''query'' @ '':'' @ quoted q @ '','' @ quoted ''variables'' @ '':'' @ show_json j @ ''}''"
| "show_packet (Packet q (Error m)) =
     ''{'' @ quoted ''query'' @ '':'' @ quoted q @ '','' @ quoted ''variables'' @ '':{}}''"

definition json_env :: "response completion \<Rightarrow> env" where
  "json_env answer = \<lparr>JSON_stringify = (\<lambda>p. Returns (show_packet p)), fetch = (\<lambda>r. answer)\<rparr>"

section \<open>Basic facts about the calls\<close>

lemma run_Nil [simp]: "run [] s = s"
  by (simp add: run_def)

lemma run_Cons [simp]: "run (e # evs) s = run evs (apply_event s e)"
  by (simp add: run_def)

lemma run_append [simp]: "run (xs @ ys) s = run ys (run xs s)"
  by (simp add: run_def)

lemma trace_reset: "trace reset = [SetLoading False, SetError (Val JNull), SetData (Val JNull)]"
  by (simp add: reset_def trace_def and_then_def setLoading_def setError_def setData_def)

lemma run_reset: "run (trace reset) s = initial_state"
  by (simp add: trace_reset initial_state_def)

lemma get_data_trace: "fst (get_data rs) = []"
  by (cases rs) simp_all

lemma snd_get_data_throws: "(snd (get_data rs) = Throws e) = (rs = JNull \<and> e = Error ''TypeError'')"
  by (cases rs) auto

lemma get_data_returns: "rs \<noteq> JNull \<Longrightarrow> \<exists>d. snd (get_data rs) = Returns d"
  by (cases rs) simp_all

lemma request_path_ts_cases:
  "request_path_ts en ctx pr vars =
     (case JSON_stringify en (make_packet pr vars) of
        Throws e \<Rightarrow> ([SetLoading True, Stringify (make_packet pr vars)], Throws e)
      | Returns b \<Rightarrow>
          (case fetch en (make_request ctx b) of
             Throws e \<Rightarrow>
               ([SetLoading True, Stringify (make_packet pr vars), Fetch (make_request ctx b)],
                Throws e)
           | Returns req \<Rightarrow>
               (case json req of
                  Throws e \<Rightarrow>
                    ([SetLoading True, Stringify (make_packet pr vars),
                      Fetch (make_request ctx b), SetTimeout 3000, ReadJson req], Throws e)
                | Returns rs \<Rightarrow>
                    (case snd (get_data rs) of
                       Throws e \<Rightarrow>
                         ([SetLoading True, Stringify (make_packet pr vars),
                           Fetch (make_request ctx b), SetTimeout 3000, ReadJson req], Throws e)
                     | Returns d \<Rightarrow>
                         ([SetLoading True, Stringify (make_packet pr vars),
                           Fetch (make_request ctx b), SetTimeout 3000, ReadJson req,
                           SetData d, SetLoading False], Returns ())))))"
  by (simp add: request_path_ts_def Let_def and_then_def setLoading_def stringify_call_def
      await_fetch_def await_timeout_def await_json_def setData_def get_data_trace
      split: completion.splits)

lemma request_path_js_cases:
  "request_path_js en ctx pr vars =
     (case JSON_stringify en (make_packet pr vars) of
        Throws e \<Rightarrow> ([SetLoading True, Stringify (make_packet pr vars)], Throws e)
      | Returns b \<Rightarrow>
          (case fetch en (make_request ctx b) of
             Throws e \<Rightarrow>
               ([SetLoading True, Stringify (make_packet pr vars), Fetch (make_request ctx b)],
                Throws e)
           | Returns req \<Rightarrow>
               (case json req of
                  Throws e \<Rightarrow>
                    ([SetLoading True, Stringify (make_packet pr vars),
                      Fetch (make_request ctx b), ReadJson req], Throws e)
                | Returns rs \<Rightarrow>
                    (case snd (get_data rs) of
                       Throws e \<Rightarrow>
                         ([SetLoading True, Stringify (make_packet pr vars),
                           Fetch (make_request ctx b), ReadJson req], Throws e)
                     | Returns d \<Rightarrow>
                         ([SetLoading True, Stringify (make_packet pr vars),
                           Fetch (make_request ctx b), ReadJson req,
                           SetData d, SetLoading False], Returns ())))))"
  by (simp add: request_path_js_def Let_def and_then_def setLoading_def stringify_call_def
      await_fetch_def await_json_def setData_def get_data_trace
      split: completion.splits)

lemma loadData_ts_catch:
  "loadData_ts en ctx pr vars =
     (trace (request_path_ts en ctx pr vars) @
        (case outcome (request_path_ts en ctx pr vars) of
           Throws e \<Rightarrow> [SetError e] | Returns u \<Rightarrow> []),
      Returns ())"
  by (simp add: loadData_ts_def try_catch_def setError_def trace_def outcome_def
      split: completion.splits)

lemma loadData_js_catch:
  "loadData_js en ctx pr vars =
     (trace (request_path_js en ctx pr vars) @
        (case outcome (request_path_js en ctx pr vars) of
           Throws e \<Rightarrow> [SetError e] | Returns u \<Rightarrow> []),
      Returns ())"
  by (simp add: loadData_js_def try_catch_def setError_def trace_def outcome_def
      split: completion.splits)

lemma request_path_ts_throws_iff:
  "(outcome (request_path_ts en ctx pr vars) = Throws e) =
     (case JSON_stringify en (make_packet pr vars) of
        Throws x \<Rightarrow> x = e
      | Returns b \<Rightarrow>
          (case fetch en (make_request ctx b) of
             Throws x \<Rightarrow> x = e
           | Returns req \<Rightarrow>
               (case json req of
                  Throws x \<Rightarrow> x = e
                | Returns rs \<Rightarrow> rs = JNull \<and> e = Error ''TypeError'')))"
  by (auto simp: request_path_ts_cases outcome_def snd_get_data_throws split: completion.splits)

lemma request_path_js_throws_iff:
  "(outcome (request_path_js en ctx pr vars) = Throws e) =
     (case JSON_stringify en (make_packet pr vars) of
        Throws x \<Rightarrow> x = e
      | Returns b \<Rightarrow>
          (case fetch en (make_request ctx b) of
             Throws x \<Rightarrow> x = e
           | Returns req \<Rightarrow>
               (case json req of
                  Throws x \<Rightarrow> x = e
                | Returns rs \<Rightarrow> rs = JNull \<and> e = Error ''TypeError'')))"
  by (auto simp: request_path_js_cases outcome_def snd_get_data_throws split: completion.splits)

lemma run_request_path_ts_throws:
  "outcome (request_path_ts en ctx pr vars) = Throws e \<Longrightarrow>
   run (trace (request_path_ts en ctx pr vars)) s = s\<lparr>loading := True\<rparr>"
  by (simp add: request_path_ts_cases outcome_def trace_def split: completion.splits)

lemma run_request_path_js_throws:
  "outcome (request_path_js en ctx pr vars) = Throws e \<Longrightarrow>
   run (trace (request_path_js en ctx pr vars)) s = s\<lparr>loading := True\<rparr>"
  by (simp add: request_path_js_cases outcome_def trace_def split: completion.splits)

lemma requests_loadData_ts:
  "requests (trace (loadData_ts en ctx pr vars)) =
     (case JSON_stringify en (make_packet pr vars) of
        Throws e \<Rightarrow> [] | Returns b \<Rightarrow> [make_request ctx b])"
  by (simp add: loadData_ts_catch trace_def request_path_ts_cases outcome_def requests_def
      split: completion.splits)

lemma requests_loadData_js:
  "requests (trace (loadData_js en ctx pr vars)) =
     (case JSON_stringify en (make_packet pr vars) of
        Throws e \<Rightarrow> [] | Returns b \<Rightarrow> [make_request ctx b])"
  by (simp add: loadData_js_catch trace_def request_path_js_cases outcome_def requests_def
      split: completion.splits)

lemma packets_loadData_ts:
  "packets (trace (loadData_ts en ctx pr vars)) = [make_packet pr vars]"
  by (simp add: loadData_ts_catch trace_def request_path_ts_cases outcome_def packets_def
      split: completion.splits)

lemma packets_loadData_js:
  "packets (trace (loadData_js en ctx pr vars)) = [make_packet pr vars]"
  by (simp add: loadData_js_catch trace_def request_path_js_cases outcome_def packets_def
      split: completion.splits)

lemma loadData_ts_success:
  assumes "JSON_stringify en (make_packet pr vars) = Returns b"
    and "fetch en (make_request ctx b) = Returns req"
    and "json req = Returns rs"
    and "outcome (get_data rs) = Returns d"
  shows "trace (loadData_ts en ctx pr vars) =
           [SetLoading True, Stringify (make_packet pr vars), Fetch (make_request ctx b),
            SetTimeout 3000, ReadJson req, SetData d, SetLoading False]"
  using assms by (simp add: loadData_ts_catch trace_def outcome_def request_path_ts_cases)

lemma loadData_js_success:
  assumes "JSON_stringify en (make_packet pr vars) = Returns b"
    and "fetch en (make_request ctx b) = Returns req"
    and "json req = Returns rs"
    and "outcome (get_data rs) = Returns d"
  shows "trace (loadData_js en ctx pr vars) =
           [SetLoading True, Stringify (make_packet pr vars), Fetch (make_request ctx b),
            ReadJson req, SetData d, SetLoading False]"
  using assms by (simp add: loadData_js_catch trace_def outcome_def request_path_js_cases)

lemma make_packet_override: "make_packet pr (Val (JObj m)) = Packet (query pr) (Val (JObj m))"
  by (simp add: make_packet_def)

lemma make_packet_default: "make_packet pr Undefined = Packet (query pr) (variables pr)"
  by (simp add: make_packet_def)

lemma merge_headers_apply:
  "merge_headers hs k =
     (case (case hs of None \<Rightarrow> Map.empty | Some h \<Rightarrow> h) k of
        Some v \<Rightarrow> Some v
      | None \<Rightarrow> if k = ''Content-Type'' then Some ''application/json'' else None)"
  by (simp add: merge_headers_def map_add_def split: option.splits)

lemma packets_append: "packets (xs @ ys) = packets xs @ packets ys"
  by (simp add: packets_def)

lemma stored_trigger_ts: "stored (fst (trigger_ts en ctx h vars)) = stored h"
  by (simp add: trigger_ts_def Let_def)

lemma stored_trigger_js: "stored (fst (trigger_js en ctx h vars)) = stored h"
  by (simp add: trigger_js_def Let_def)

lemma snd_trigger_ts: "snd (trigger_ts en ctx h vars) = trace (loadData_ts en ctx (stored h) vars)"
  by (simp add: trigger_ts_def Let_def)

lemma snd_trigger_js: "snd (trigger_js en ctx h vars) = trace (loadData_js en ctx (stored h) vars)"
  by (simp add: trigger_js_def Let_def)

section \<open>Failures of the request path\<close>

text \<open>
  C1. Whatever throws in the request path of \<^verbatim>\<open>loadData\<close> (the serialisation of the
  packet, the rejected \<^verbatim>\<open>fetch\<close>, \<^verbatim>\<open>json()\<close> on a body that is not JSON, the read of
  \<^verbatim>\<open>data\<close> on a \<^verbatim>\<open>null\<close> payload: see \<open>request_path_ts_throws_iff\<close>), the thrown
  value ends in \<open>error\<close>, \<open>loading\<close> is left true as the start of the call set it, and
  \<open>data\<close> keeps the value it had before the call. Both implementations.
\<close>

theorem failure_captured:
  "(outcome (request_path_ts en ctx pr vars) = Throws e \<longrightarrow>
      run (trace (loadData_ts en ctx pr vars)) s = s\<lparr>loading := True, error := e\<rparr>) \<and>
   (outcome (request_path_js en ctx pr vars) = Throws e \<longrightarrow>
      run (trace (loadData_js en ctx pr vars)) s = s\<lparr>loading := True, error := e\<rparr>)"
  by (simp add: loadData_ts_catch loadData_js_catch trace_def [of "(x, y)" for x y]
      run_request_path_ts_throws run_request_path_js_throws)

theorem failure_captured_witness:
  "outcome (request_path_ts (stub_env (Throws (Error ''Failed to fetch''))) auth_ctx item_props Undefined)
     = Throws (Error ''Failed to fetch'') \<and>
   run (trace (loadData_ts (stub_env (Throws (Error ''Failed to fetch''))) auth_ctx item_props Undefined))
       \<lparr>loading = False, error = Val JNull, data = Val (JStr ''kept'')\<rparr>
     = \<lparr>loading = True, error = Error ''Failed to fetch'', data = Val (JStr ''kept'')\<rparr> \<and>
   outcome (request_path_js (stub_env (Throws (Error ''Failed to fetch''))) auth_ctx item_props Undefined)
     = Throws (Error ''Failed to fetch'') \<and>
   run (trace (loadData_js (stub_env (Throws (Error ''Failed to fetch''))) auth_ctx item_props Undefined))
       \<lparr>loading = False, error = Val JNull, data = Val (JStr ''kept'')\<rparr>
     = \<lparr>loading = True, error = Error ''Failed to fetch'', data = Val (JStr ''kept'')\<rparr>"
  using failure_captured [of "stub_env (Throws (Error ''Failed to fetch''))" auth_ctx item_props
      Undefined "Error ''Failed to fetch''" "\<lparr>loading = False, error = Val JNull, data = Val (JStr ''kept'')\<rparr>"]
  by (simp add: request_path_ts_throws_iff request_path_js_throws_iff stub_env_def)

section \<open>The headers of the request\<close>

text \<open>
  C2. Every request that \<^verbatim>\<open>loadData\<close> sends carries the fixed
  \<^verbatim>\<open>Content-Type: application/json\<close> merged with the configured headers, the
  configured ones last: a key of the configuration keeps the configured value
  (a configured \<^verbatim>\<open>Content-Type\<close> included), and \<^verbatim>\<open>Content-Type\<close> is
  \<^verbatim>\<open>application/json\<close> when the configuration has none. Both implementations.
\<close>

theorem header_merge:
  "\<forall>r \<in> set (requests (trace (loadData_ts en ctx pr vars)) @
              requests (trace (loadData_js en ctx pr vars))).
     http_headers r =
       [''Content-Type'' \<mapsto> ''application/json''] ++
         (case headers ctx of None \<Rightarrow> Map.empty | Some h \<Rightarrow> h) \<and>
     (\<forall>k. http_headers r k =
        (case (case headers ctx of None \<Rightarrow> Map.empty | Some h \<Rightarrow> h) k of
           Some v \<Rightarrow> Some v
         | None \<Rightarrow> if k = ''Content-Type'' then Some ''application/json'' else None))"
  by (auto simp: requests_loadData_ts requests_loadData_js make_request_def merge_headers_apply
      simp flip: merge_headers_def split: completion.splits)

theorem header_merge_witness:
  "requests (trace (loadData_ts (stub_env (Returns pong)) auth_ctx ping_props Undefined)) =
     [make_request auth_ctx ''packet''] \<and>
   requests (trace (loadData_js (stub_env (Returns pong)) auth_ctx ping_props Undefined)) =
     [make_request auth_ctx ''packet''] \<and>
   http_headers (make_request auth_ctx ''packet'') =
     [''Content-Type'' \<mapsto> ''application/json'', ''Authorization'' \<mapsto> ''X''] \<and>
   requests (trace (loadData_ts (stub_env (Returns pong)) plain_ctx ping_props Undefined)) =
     [make_request plain_ctx ''packet''] \<and>
   http_headers (make_request plain_ctx ''packet'') ''Content-Type'' = Some ''text/plain''"
  using header_merge [of "stub_env (Returns pong)" auth_ctx ping_props Undefined]
    header_merge [of "stub_env (Returns pong)" plain_ctx ping_props Undefined]
  by (simp add: requests_loadData_ts requests_loadData_js stub_env_def auth_ctx_def plain_ctx_def)

section \<open>Activation\<close>

text \<open>
  In the TypeScript source an instance whose \<^verbatim>\<open>loadOnStart\<close> stays what it was at
  the mount calls \<^verbatim>\<open>loadData()\<close> once when the flag is true, with the default
  variables, and never when it is false; the unmount calls \<^verbatim>\<open>reset()\<close> once.
\<close>

lemma rerender_ts_same:
  "\<forall>p \<in> set prs. loadOnStart p = loadOnStart pr \<Longrightarrow> rerender_ts pr prs = []"
proof (induction prs arbitrary: pr)
  case Nil
  then show ?case by simp
next
  case (Cons a prs)
  then have a: "loadOnStart a = loadOnStart pr" by simp
  with Cons.prems have "\<forall>p \<in> set prs. loadOnStart p = loadOnStart a" by simp
  then have "rerender_ts a prs = []" by (rule Cons.IH)
  with a show ?case by simp
qed

lemma auto_trigger_ts:
  assumes "\<forall>p \<in> set prs. loadOnStart p = loadOnStart pr"
  shows "lifetime_ts pr prs =
           (if loadOnStart pr then [CallLoadData pr Undefined, CallReset] else [CallReset]) \<and>
         length (auto_loads (lifetime_ts pr prs)) = (if loadOnStart pr then 1 else 0) \<and>
         resets (lifetime_ts pr prs) = 1 \<and>
         packets (trace (loadData_ts en ctx pr Undefined)) = [Packet (query pr) (variables pr)]"
  using rerender_ts_same [OF assms]
  by (simp add: lifetime_ts_def effect_ts_def cleanup_def auto_loads_def resets_def
      packets_loadData_ts make_packet_default)

lemma rerender_js_nothing: "rerender_js pr prs = []"
  by (induction prs arbitrary: pr) simp_all

lemma auto_trigger_js:
  "lifetime_js pr prs = (if truthy (variables pr) then [CallLoadData pr Undefined, CallReset] else [CallReset])"
  by (simp add: lifetime_js_def effect_js_def cleanup_def rerender_js_nothing)

text \<open>
  C3. The automatic call follows \<^verbatim>\<open>loadOnStart\<close>: one call when it is true, none when
  it is false. The build under lib tests \<^verbatim>\<open>props.variables\<close> instead: mounted with
  \<^verbatim>\<open>{ query: "{item}", variables: { id: 1 }, loadOnStart: false }\<close> it calls
  \<^verbatim>\<open>loadData()\<close>, where the TypeScript source calls nothing; mounted with
  \<^verbatim>\<open>loadOnStart: true\<close> and no variables it calls nothing, where the TypeScript
  source calls \<^verbatim>\<open>loadData()\<close> once.
\<close>

theorem lib_auto_trigger_ignores_loadOnStart:
  "loadOnStart item_props = False \<and>
   auto_loads (lifetime_js item_props []) = [CallLoadData item_props Undefined] \<and>
   auto_loads (lifetime_ts item_props []) = [] \<and>
   loadOnStart (ping_props\<lparr>variables := Undefined\<rparr>) = True \<and>
   auto_loads (lifetime_js (ping_props\<lparr>variables := Undefined\<rparr>) []) = [] \<and>
   auto_loads (lifetime_ts (ping_props\<lparr>variables := Undefined\<rparr>) []) =
     [CallLoadData (ping_props\<lparr>variables := Undefined\<rparr>) Undefined]"
  by (simp add: auto_trigger_js lifetime_ts_def effect_ts_def cleanup_def auto_loads_def
      item_props_def ping_props_def)

section \<open>The successful round trip\<close>

text \<open>
  C4. When the transport succeeds and the body parses to a JSON value other than
  \<^verbatim>\<open>null\<close>, \<^verbatim>\<open>loadData\<close> sets \<open>data\<close> to the \<^verbatim>\<open>data\<close> property of the parsed
  payload (\<^verbatim>\<open>undefined\<close> when the payload has none) and \<open>loading\<close> to false, and
  writes nothing else. On a fresh hook with query \<^verbatim>\<open>{ping}\<close> and a stub returning
  \<^verbatim>\<open>{"data":{"ping":"pong"}}\<close> the state ends as \<open>loading\<close> false, \<open>error\<close> null,
  \<open>data\<close> \<^verbatim>\<open>{"ping":"pong"}\<close>. Both implementations.
\<close>

theorem success_sets_data:
  assumes "JSON_stringify en (make_packet pr vars) = Returns b"
    and "fetch en (make_request ctx b) = Returns req"
    and "json req = Returns rs"
    and "rs \<noteq> JNull"
  shows "\<exists>d. outcome (get_data rs) = Returns d \<and>
           run (trace (loadData_ts en ctx pr vars)) s = s\<lparr>data := d, loading := False\<rparr> \<and>
           run (trace (loadData_js en ctx pr vars)) s = s\<lparr>data := d, loading := False\<rparr>"
proof -
  from \<open>rs \<noteq> JNull\<close> obtain d where d: "outcome (get_data rs) = Returns d"
    using get_data_returns by (auto simp: outcome_def)
  have "run (trace (loadData_ts en ctx pr vars)) s = s\<lparr>data := d, loading := False\<rparr>"
    by (simp add: loadData_ts_success [OF assms(1-3) d])
  moreover have "run (trace (loadData_js en ctx pr vars)) s = s\<lparr>data := d, loading := False\<rparr>"
    by (simp add: loadData_js_success [OF assms(1-3) d])
  ultimately show ?thesis using d by blast
qed

theorem success_sets_data_witness:
  "run (trace (loadData_ts (stub_env (Returns pong)) GraphQLContext ping_props Undefined)) initial_state =
     \<lparr>loading = False, error = Val JNull, data = Val (JObj [(''ping'', JStr ''pong'')])\<rparr> \<and>
   run (trace (loadData_js (stub_env (Returns pong)) GraphQLContext ping_props Undefined)) initial_state =
     \<lparr>loading = False, error = Val JNull, data = Val (JObj [(''ping'', JStr ''pong'')])\<rparr>"
  using success_sets_data [of "stub_env (Returns pong)" ping_props Undefined "''packet''"
      GraphQLContext pong "JObj [(''data'', JObj [(''ping'', JStr ''pong'')])]" initial_state]
  by (simp add: stub_env_def pong_def outcome_def initial_state_def)

text \<open>
  The body \<^verbatim>\<open>null\<close> parses as JSON, and reading \<^verbatim>\<open>data\<close> of it throws: the call
  ends with \<open>loading\<close> true and the TypeError in \<open>error\<close>.
\<close>

theorem success_null_body_counterexample:
  "fetch (stub_env (Returns null_body)) (make_request GraphQLContext ''packet'') = Returns null_body \<and>
   json null_body = Returns JNull \<and>
   run (trace (loadData_ts (stub_env (Returns null_body)) GraphQLContext ping_props Undefined))
       initial_state = \<lparr>loading = True, error = Error ''TypeError'', data = Val JNull\<rparr> \<and>
   run (trace (loadData_js (stub_env (Returns null_body)) GraphQLContext ping_props Undefined))
       initial_state = \<lparr>loading = True, error = Error ''TypeError'', data = Val JNull\<rparr> \<and>
   loading (run (trace (loadData_ts (stub_env (Returns null_body)) GraphQLContext ping_props Undefined))
              initial_state) \<noteq> False \<and>
   loading (run (trace (loadData_js (stub_env (Returns null_body)) GraphQLContext ping_props Undefined))
              initial_state) \<noteq> False"
  by (simp add: loadData_ts_catch loadData_js_catch trace_def outcome_def request_path_ts_cases
      request_path_js_cases stub_env_def null_body_def initial_state_def)

section \<open>Nothing is thrown to the caller\<close>

text \<open>
  C5. \<^verbatim>\<open>loadData\<close> returns normally for every environment, configuration, props
  and argument: whatever the request path throws is caught, and the only trace of
  it is one \<^verbatim>\<open>setError\<close> with the thrown value after the events of the request
  path. Both implementations.
\<close>

theorem never_throws:
  "outcome (loadData_ts en ctx pr vars) = Returns () \<and>
   outcome (loadData_js en ctx pr vars) = Returns () \<and>
   trace (loadData_ts en ctx pr vars) =
     trace (request_path_ts en ctx pr vars) @
       (case outcome (request_path_ts en ctx pr vars) of Throws e \<Rightarrow> [SetError e] | Returns u \<Rightarrow> []) \<and>
   trace (loadData_js en ctx pr vars) =
     trace (request_path_js en ctx pr vars) @
       (case outcome (request_path_js en ctx pr vars) of Throws e \<Rightarrow> [SetError e] | Returns u \<Rightarrow> [])"
  by (simp add: loadData_ts_catch loadData_js_catch outcome_def [of "(x, y)" for x y]
      trace_def [of "(x, y)" for x y])

section \<open>The start of a call\<close>

lemma before_fetch_ts:
  "JSON_stringify en (make_packet pr vars) = Returns b \<Longrightarrow>
   before_fetch (trace (loadData_ts en ctx pr vars)) =
     [SetLoading True, Stringify (make_packet pr vars)]"
  by (simp add: loadData_ts_catch trace_def outcome_def request_path_ts_cases before_fetch_def
      split: completion.splits)

lemma before_fetch_js:
  "JSON_stringify en (make_packet pr vars) = Returns b \<Longrightarrow>
   before_fetch (trace (loadData_js en ctx pr vars)) =
     [SetLoading True, Stringify (make_packet pr vars)]"
  by (simp add: loadData_js_catch trace_def outcome_def request_path_js_cases before_fetch_def
      split: completion.splits)

text \<open>
  C6. Up to the network call, \<^verbatim>\<open>loadData\<close> writes one state cell, \<open>loading\<close>, which
  it sets to true; \<open>error\<close> and \<open>data\<close> are as they were when the request goes
  out. It is \<^verbatim>\<open>reset()\<close> that sets them to null. Both implementations.
\<close>

theorem start_clears_nothing:
  assumes "JSON_stringify en (make_packet pr vars) = Returns b"
  shows "before_fetch (trace (loadData_ts en ctx pr vars)) =
           [SetLoading True, Stringify (make_packet pr vars)] \<and>
         before_fetch (trace (loadData_js en ctx pr vars)) =
           [SetLoading True, Stringify (make_packet pr vars)] \<and>
         run (before_fetch (trace (loadData_ts en ctx pr vars))) s = s\<lparr>loading := True\<rparr> \<and>
         run (before_fetch (trace (loadData_js en ctx pr vars))) s = s\<lparr>loading := True\<rparr> \<and>
         requests (trace (loadData_ts en ctx pr vars)) = [make_request ctx b] \<and>
         requests (trace (loadData_js en ctx pr vars)) = [make_request ctx b] \<and>
         run (trace reset) s = s\<lparr>loading := False, error := Val JNull, data := Val JNull\<rparr>"
  using assms
  by (simp add: before_fetch_ts before_fetch_js requests_loadData_ts requests_loadData_js
      trace_reset)

theorem start_clears_nothing_witness:
  "run (before_fetch (trace (loadData_ts (stub_env (Returns pong)) auth_ctx item_props Undefined)))
       \<lparr>loading = False, error = Error ''earlier'', data = Val (JStr ''kept'')\<rparr> =
     \<lparr>loading = True, error = Error ''earlier'', data = Val (JStr ''kept'')\<rparr> \<and>
   run (before_fetch (trace (loadData_js (stub_env (Returns pong)) auth_ctx item_props Undefined)))
       \<lparr>loading = False, error = Error ''earlier'', data = Val (JStr ''kept'')\<rparr> =
     \<lparr>loading = True, error = Error ''earlier'', data = Val (JStr ''kept'')\<rparr>"
  using start_clears_nothing [of "stub_env (Returns pong)" item_props Undefined "''packet''" auth_ctx
      "\<lparr>loading = False, error = Error ''earlier'', data = Val (JStr ''kept'')\<rparr>"]
  by (simp add: stub_env_def)

section \<open>Variables of a call\<close>

text \<open>
  C7. A call with an object as argument builds its packet with that object as
  \<^verbatim>\<open>variables\<close>, and the one request it sends has the serialisation of that
  packet as its body (no request when the serialisation throws). The call leaves
  the props of the instance as they were: a call without argument on the instance
  it returns builds its packet with the default variables and sends the
  serialisation of that packet. Both implementations.
\<close>

theorem variable_override:
  "packets (trace (loadData_ts en ctx pr (Val (JObj m)))) = [Packet (query pr) (Val (JObj m))] \<and>
   packets (trace (loadData_js en ctx pr (Val (JObj m)))) = [Packet (query pr) (Val (JObj m))] \<and>
   requests (trace (loadData_ts en ctx pr (Val (JObj m)))) =
     (case JSON_stringify en (Packet (query pr) (Val (JObj m))) of
        Throws e \<Rightarrow> []
      | Returns b \<Rightarrow>
          [\<lparr>url = endpoint ctx, http_method = ''post'',
            http_headers = merge_headers (headers ctx), body = b\<rparr>]) \<and>
   requests (trace (loadData_js en ctx pr (Val (JObj m)))) =
     (case JSON_stringify en (Packet (query pr) (Val (JObj m))) of
        Throws e \<Rightarrow> []
      | Returns b \<Rightarrow>
          [\<lparr>url = endpoint ctx, http_method = ''post'',
            http_headers = merge_headers (headers ctx), body = b\<rparr>]) \<and>
   map body (requests (trace (loadData_ts en ctx pr (Val (JObj m))))) =
     (case JSON_stringify en (Packet (query pr) (Val (JObj m))) of
        Throws e \<Rightarrow> [] | Returns b \<Rightarrow> [b]) \<and>
   map body (requests (trace (loadData_js en ctx pr (Val (JObj m))))) =
     (case JSON_stringify en (Packet (query pr) (Val (JObj m))) of
        Throws e \<Rightarrow> [] | Returns b \<Rightarrow> [b]) \<and>
   packets (trace (loadData_ts en ctx pr (Val (JObj m))) @ trace (loadData_ts en ctx pr Undefined)) =
     [Packet (query pr) (Val (JObj m)), Packet (query pr) (variables pr)] \<and>
   packets (trace (loadData_js en ctx pr (Val (JObj m))) @ trace (loadData_js en ctx pr Undefined)) =
     [Packet (query pr) (Val (JObj m)), Packet (query pr) (variables pr)] \<and>
   stored (fst (trigger_ts en ctx h (Val (JObj m)))) = stored h \<and>
   stored (fst (trigger_js en ctx h (Val (JObj m)))) = stored h \<and>
   packets (snd (trigger_ts en ctx h (Val (JObj m)))) =
     [Packet (query (stored h)) (Val (JObj m))] \<and>
   packets (snd (trigger_js en ctx h (Val (JObj m)))) =
     [Packet (query (stored h)) (Val (JObj m))] \<and>
   map body (requests (snd (trigger_ts en ctx h (Val (JObj m))))) =
     (case JSON_stringify en (Packet (query (stored h)) (Val (JObj m))) of
        Throws e \<Rightarrow> [] | Returns b \<Rightarrow> [b]) \<and>
   map body (requests (snd (trigger_js en ctx h (Val (JObj m))))) =
     (case JSON_stringify en (Packet (query (stored h)) (Val (JObj m))) of
        Throws e \<Rightarrow> [] | Returns b \<Rightarrow> [b]) \<and>
   packets (snd (trigger_ts en ctx (fst (trigger_ts en ctx h (Val (JObj m)))) Undefined)) =
     [Packet (query (stored h)) (variables (stored h))] \<and>
   packets (snd (trigger_js en ctx (fst (trigger_js en ctx h (Val (JObj m)))) Undefined)) =
     [Packet (query (stored h)) (variables (stored h))] \<and>
   map body (requests (snd (trigger_ts en ctx (fst (trigger_ts en ctx h (Val (JObj m)))) Undefined))) =
     (case JSON_stringify en (Packet (query (stored h)) (variables (stored h))) of
        Throws e \<Rightarrow> [] | Returns b \<Rightarrow> [b]) \<and>
   map body (requests (snd (trigger_js en ctx (fst (trigger_js en ctx h (Val (JObj m)))) Undefined))) =
     (case JSON_stringify en (Packet (query (stored h)) (variables (stored h))) of
        Throws e \<Rightarrow> [] | Returns b \<Rightarrow> [b])"
proof -
  have ts: "requests (trace (loadData_ts en ctx p v)) =
      (case JSON_stringify en (make_packet p v) of
         Throws e \<Rightarrow> []
       | Returns b \<Rightarrow>
           [\<lparr>url = endpoint ctx, http_method = ''post'',
             http_headers = merge_headers (headers ctx), body = b\<rparr>])" for p v
    by (simp add: requests_loadData_ts make_request_def split: completion.splits)
  have js: "requests (trace (loadData_js en ctx p v)) =
      (case JSON_stringify en (make_packet p v) of
         Throws e \<Rightarrow> []
       | Returns b \<Rightarrow>
           [\<lparr>url = endpoint ctx, http_method = ''post'',
             http_headers = merge_headers (headers ctx), body = b\<rparr>])" for p v
    by (simp add: requests_loadData_js make_request_def split: completion.splits)
  have bodies: "map body (case c of Throws e \<Rightarrow> []
       | Returns b \<Rightarrow>
           [\<lparr>url = u, http_method = me, http_headers = hs, body = b\<rparr>]) =
      (case c of Throws e \<Rightarrow> [] | Returns b \<Rightarrow> [b])" for c u me hs
    by (cases c) simp_all
  show ?thesis
    by (simp add: packets_append packets_loadData_ts packets_loadData_js ts js bodies
        stored_trigger_ts stored_trigger_js snd_trigger_ts snd_trigger_js
        make_packet_override make_packet_default)
qed

theorem variable_override_witness:
  \<open>map body (requests (snd (trigger_ts (json_env (Returns pong)) auth_ctx
       \<lparr>stored = item_props, cells = initial_state\<rparr> (Val (JObj [(''id'', JNum 5)]))))) =
     [''{"query":"{item}","variables":{"id":5}}''] \<and>
   map body (requests (snd (trigger_ts (json_env (Returns pong)) auth_ctx
       (fst (trigger_ts (json_env (Returns pong)) auth_ctx
          \<lparr>stored = item_props, cells = initial_state\<rparr> (Val (JObj [(''id'', JNum 5)]))))
       Undefined))) =
     [''{"query":"{item}","variables":{"id":1}}''] \<and>
   map body (requests (snd (trigger_js (json_env (Returns pong)) auth_ctx
       \<lparr>stored = item_props, cells = initial_state\<rparr> (Val (JObj [(''id'', JNum 5)]))))) =
     [''{"query":"{item}","variables":{"id":5}}''] \<and>
   map body (requests (snd (trigger_js (json_env (Returns pong)) auth_ctx
       (fst (trigger_js (json_env (Returns pong)) auth_ctx
          \<lparr>stored = item_props, cells = initial_state\<rparr> (Val (JObj [(''id'', JNum 5)]))))
       Undefined))) =
     [''{"query":"{item}","variables":{"id":1}}''] \<and>
   packets (trace (loadData_ts (json_env (Returns pong)) auth_ctx item_props (Val (JObj [(''id'', JNum 5)])))
            @ trace (loadData_ts (json_env (Returns pong)) auth_ctx item_props Undefined)) =
     [Packet ''{item}'' (Val (JObj [(''id'', JNum 5)])), Packet ''{item}'' (Val (JObj [(''id'', JNum 1)]))] \<and>
   packets (trace (loadData_js (json_env (Returns pong)) auth_ctx item_props (Val (JObj [(''id'', JNum 5)])))
            @ trace (loadData_js (json_env (Returns pong)) auth_ctx item_props Undefined)) =
     [Packet ''{item}'' (Val (JObj [(''id'', JNum 5)])), Packet ''{item}'' (Val (JObj [(''id'', JNum 1)]))]\<close>
proof -
  have five: \<open>JSON_stringify (json_env (Returns pong)) (Packet ''{item}'' (Val (JObj [(''id'', JNum 5)]))) =
      Returns ''{"query":"{item}","variables":{"id":5}}''\<close>
    by (simp add: json_env_def quoted_def show_int_def digit_def)
  have one: \<open>JSON_stringify (json_env (Returns pong)) (Packet ''{item}'' (Val (JObj [(''id'', JNum 1)]))) =
      Returns ''{"query":"{item}","variables":{"id":1}}''\<close>
    by (simp add: json_env_def quoted_def show_int_def digit_def)
  have item: "query item_props = ''{item}''" "variables item_props = Val (JObj [(''id'', JNum 1)])"
    by (simp_all add: item_props_def)
  show ?thesis
    using variable_override [of "json_env (Returns pong)" auth_ctx item_props "[(''id'', JNum 5)]"
        "\<lparr>stored = item_props, cells = initial_state\<rparr>"]
    by (simp add: five one item)
qed

section \<open>reset\<close>

text \<open>
  C8. \<^verbatim>\<open>reset()\<close> always produces the state with \<open>loading\<close> false and \<open>data\<close> and
  \<open>error\<close> null, whatever the state it starts from, and calling it twice in a row
  ends in the same state as calling it once.
\<close>

theorem reset_idempotent:
  "run (trace reset) s = \<lparr>loading = False, error = Val JNull, data = Val JNull\<rparr> \<and>
   run (trace reset) (run (trace reset) s) = run (trace reset) s \<and>
   outcome reset = Returns ()"
  by (simp add: trace_reset)
    (simp add: reset_def outcome_def and_then_def setLoading_def setError_def setData_def)

section \<open>The timer of the TypeScript source\<close>

lemma timeline_mono: "(t', e) \<in> set (timeline tm t evs) \<Longrightarrow> t \<le> t'"
proof (induction evs arbitrary: t)
  case Nil
  then show ?case by simp
next
  case (Cons a evs)
  from Cons.prems have "t' = t + duration tm a \<or> (t', e) \<in> set (timeline tm (t + duration tm a) evs)"
    by auto
  then show ?case
  proof
    assume "t' = t + duration tm a"
    then show ?thesis by simp
  next
    assume "(t', e) \<in> set (timeline tm (t + duration tm a) evs)"
    then have "t + duration tm a \<le> t'" by (rule Cons.IH)
    then show ?thesis by simp
  qed
qed

lemma loadData_ts_resolved:
  assumes "JSON_stringify en (make_packet pr vars) = Returns b"
    and "fetch en (make_request ctx b) = Returns req"
  shows "\<exists>rest. trace (loadData_ts en ctx pr vars) =
           [SetLoading True, Stringify (make_packet pr vars), Fetch (make_request ctx b),
            SetTimeout 3000, ReadJson req] @ rest"
  using assms
  by (simp add: loadData_ts_catch trace_def outcome_def request_path_ts_cases
      split: completion.splits)

text \<open>
  C9. In the TypeScript source a call whose \<^verbatim>\<open>fetch\<close> resolves sets a timer of 3000
  milliseconds right after the transport completes and reads the body only when
  it has fired: every event after the network call is at least 3000 milliseconds
  later than the completion of the transport, the state up to the timer is the
  state before the call with \<open>loading\<close> true, and on the success path the writes
  to \<open>data\<close> and \<open>loading\<close> come after the timer and the reading of the body.
\<close>

theorem delay_before_response:
  assumes "JSON_stringify en (make_packet pr vars) = Returns b"
    and "fetch en (make_request ctx b) = Returns req"
  shows "take 5 (timeline tm t0 (trace (loadData_ts en ctx pr vars))) =
           [(t0, SetLoading True), (t0, Stringify (make_packet pr vars)),
            (t0 + fetch_latency tm, Fetch (make_request ctx b)),
            (t0 + fetch_latency tm + (3000 + timer_lateness tm), SetTimeout 3000),
            (t0 + fetch_latency tm + (3000 + timer_lateness tm) + json_latency tm, ReadJson req)] \<and>
         (\<forall>(t, e) \<in> set (drop 4 (timeline tm t0 (trace (loadData_ts en ctx pr vars)))).
            t0 + fetch_latency tm + 3000 \<le> t) \<and>
         run (take 4 (trace (loadData_ts en ctx pr vars))) s = s\<lparr>loading := True\<rparr> \<and>
         (\<forall>rs d. json req = Returns rs \<and> outcome (get_data rs) = Returns d \<longrightarrow>
            drop 4 (trace (loadData_ts en ctx pr vars)) = [ReadJson req, SetData d, SetLoading False])"
proof -
  obtain rest where tr: "trace (loadData_ts en ctx pr vars) =
      [SetLoading True, Stringify (make_packet pr vars), Fetch (make_request ctx b),
       SetTimeout 3000, ReadJson req] @ rest"
    using loadData_ts_resolved [OF assms] by blast
  have late: "t0 + fetch_latency tm + 3000 \<le> t"
    if "(t, e) \<in> set (timeline tm (t0 + fetch_latency tm + (3000 + timer_lateness tm)) (ReadJson req # rest))"
    for t e
    using timeline_mono [OF that] by simp
  have succ: "drop 4 (trace (loadData_ts en ctx pr vars)) = [ReadJson req, SetData d, SetLoading False]"
    if "json req = Returns rs" and "outcome (get_data rs) = Returns d" for rs d
    by (simp add: loadData_ts_success [OF assms that])
  show ?thesis
    using late succ by (auto simp: tr)
qed

theorem delay_before_response_witness:
  "timeline \<lparr>fetch_latency = 120, timer_lateness = 4, json_latency = 1\<rparr> 0
     (trace (loadData_ts (stub_env (Returns pong)) GraphQLContext ping_props Undefined)) =
     [(0, SetLoading True),
      (0, Stringify (Packet ''{ping}'' (Val (JObj [])))),
      (120, Fetch (make_request GraphQLContext ''packet'')),
      (3124, SetTimeout 3000),
      (3125, ReadJson pong),
      (3125, SetData (Val (JObj [(''ping'', JStr ''pong'')]))),
      (3125, SetLoading False)]"
  using delay_before_response [of "stub_env (Returns pong)" ping_props Undefined "''packet''"
      GraphQLContext pong "\<lparr>fetch_latency = 120, timer_lateness = 4, json_latency = 1\<rparr>" 0 initial_state]
    loadData_ts_success [of "stub_env (Returns pong)" ping_props Undefined "''packet''"
      GraphQLContext pong "JObj [(''data'', JObj [(''ping'', JStr ''pong'')])]"
      "Val (JObj [(''ping'', JStr ''pong'')])"]
  by (simp add: stub_env_def pong_def outcome_def make_packet_def ping_props_def)

section \<open>The two implementations\<close>

text \<open>
  What the two agree on: a call of \<^verbatim>\<open>loadData\<close> leaves the same state, and the run
  of the build under lib is the run of the TypeScript source without its timer.
\<close>

lemma loadData_same_state:
  "run (trace (loadData_ts en ctx pr vars)) s = run (trace (loadData_js en ctx pr vars)) s"
  by (simp add: loadData_ts_catch loadData_js_catch trace_def outcome_def request_path_ts_cases
      request_path_js_cases split: completion.splits)

lemma loadData_js_drops_timer:
  "trace (loadData_js en ctx pr vars) =
     filter (\<lambda>e. e \<noteq> SetTimeout 3000) (trace (loadData_ts en ctx pr vars))"
  by (simp add: loadData_ts_catch loadData_js_catch trace_def outcome_def request_path_ts_cases
      request_path_js_cases split: completion.splits)

text \<open>
  C10. The two implementations are to behave alike. They do not: mounted with
  \<^verbatim>\<open>{ query: "{item}", variables: { id: 1 }, loadOnStart: false }\<close> the TypeScript
  source makes no automatic call and the build under lib makes one; on the success
  path the TypeScript source waits for its timer and the build does not; the
  TypeScript source returns the pair \<^verbatim>\<open>[loadData, { data, loading, reset, error }]\<close>
  and the build the object \<^verbatim>\<open>{ loadData, data, reset, error, loading }\<close>.
\<close>

theorem implementations_differ:
  "lifetime_ts item_props [] = [CallReset] \<and>
   lifetime_js item_props [] = [CallLoadData item_props Undefined, CallReset] \<and>
   trace (loadData_ts (stub_env (Returns pong)) GraphQLContext ping_props Undefined) =
     [SetLoading True, Stringify (Packet ''{ping}'' (Val (JObj []))),
      Fetch (make_request GraphQLContext ''packet''), SetTimeout 3000, ReadJson pong,
      SetData (Val (JObj [(''ping'', JStr ''pong'')])), SetLoading False] \<and>
   trace (loadData_js (stub_env (Returns pong)) GraphQLContext ping_props Undefined) =
     [SetLoading True, Stringify (Packet ''{ping}'' (Val (JObj []))),
      Fetch (make_request GraphQLContext ''packet''), ReadJson pong,
      SetData (Val (JObj [(''ping'', JStr ''pong'')])), SetLoading False] \<and>
   useGraphQL_ts initial_state =
     Array [Leaf LoadDataFn,
            Object [(''data'', Leaf (Value (Val JNull))), (''loading'', Leaf (Flag False)),
                    (''reset'', Leaf ResetFn), (''error'', Leaf (Value (Val JNull)))]] \<and>
   useGraphQL_js initial_state =
     Object [(''loadData'', Leaf LoadDataFn), (''data'', Leaf (Value (Val JNull))),
             (''reset'', Leaf ResetFn), (''error'', Leaf (Value (Val JNull))),
             (''loading'', Leaf (Flag False))] \<and>
   useGraphQL_ts initial_state \<noteq> useGraphQL_js initial_state"
  by (simp add: auto_trigger_js lifetime_ts_def effect_ts_def cleanup_def item_props_def
      loadData_ts_catch loadData_js_catch trace_def outcome_def request_path_ts_cases
      request_path_js_cases stub_env_def pong_def make_packet_def ping_props_def
      useGraphQL_ts_def useGraphQL_js_def initial_state_def)

end
